theory Spec2Isabelle
  imports Main
begin

section \<open>Data model (main.go, the five entity structs)\<close>

text \<open>
  A \<open>time.Time\<close> is modelled as the number of nanoseconds since Go's zero time
  (January 1, year 1, 00:00 UTC), so that the zero value of \<open>time.Time\<close> is \<open>0\<close>.
  Times carry no zone in the model: they are the instants as Go holds them in UTC.
  Identifiers (\<open>uint\<close>, an SQLite INTEGER PRIMARY KEY) are natural numbers; the
  64-bit bound of the column is not modelled.

  Every Go entity struct consists of the columns of its table and of relation fields
  that only \<open>Preload\<close> fills.  The columns are a record (one row of the table); the
  struct is a constructor holding the row and the relations, so the five structs are
  mutually recursive exactly as in the source.
\<close>

type_synonym time = int

record PatientRow =
  p_ID :: nat
  p_CreatedAt :: time
  p_FullName :: string
  p_BirthDate :: time
  p_Gender :: string
  p_Phone :: string
  p_Email :: string

record DoctorRow =
  d_ID :: nat
  d_CreatedAt :: time
  d_FullName :: string
  d_Specialization :: string
  d_Phone :: string
  d_Email :: string

record AppointmentRow =
  a_ID :: nat
  a_CreatedAt :: time
  a_PatientID :: nat
  a_DoctorID :: nat
  a_Date :: time
  a_Diagnosis :: string
  a_Treatment :: string
  a_Notes :: string

record MedicalTestRow =
  t_ID :: nat
  t_CreatedAt :: time
  t_AppointmentID :: nat
  t_Name :: string
  t_Result :: string
  t_Unit :: string
  t_ReferenceRange :: string

record MedicalHistoryRow =
  h_ID :: nat
  h_CreatedAt :: time
  h_PatientID :: nat
  h_HistoryType :: string
  h_Description :: string
  h_StartDate :: time
  h_Severity :: string
  h_Status :: string
  h_Notes :: string

datatype Patient =
    Patient (p_row: PatientRow) (p_Appointments: "Appointment list")
      (p_MedicalHistory: "MedicalHistory list")
and Doctor =
    Doctor (d_row: DoctorRow) (d_Appointments: "Appointment list")
and Appointment =
    Appointment (a_row: AppointmentRow) (a_Patient: Patient) (a_Doctor: Doctor)
      (a_MedicalTests: "MedicalTest list")
and MedicalTest =
    MedicalTest (t_row: MedicalTestRow) (t_Appointment: Appointment)
and MedicalHistory =
    MedicalHistory (h_row: MedicalHistoryRow) (h_Patient: Patient)

text \<open>The zero values of the structs: what Go leaves in a field nobody assigned.\<close>

definition zero_PatientRow :: PatientRow where
  "zero_PatientRow = \<lparr>p_ID = 0, p_CreatedAt = 0, p_FullName = [], p_BirthDate = 0,
     p_Gender = [], p_Phone = [], p_Email = []\<rparr>"

definition zero_DoctorRow :: DoctorRow where
  "zero_DoctorRow = \<lparr>d_ID = 0, d_CreatedAt = 0, d_FullName = [], d_Specialization = [],
     d_Phone = [], d_Email = []\<rparr>"

definition zero_AppointmentRow :: AppointmentRow where
  "zero_AppointmentRow = \<lparr>a_ID = 0, a_CreatedAt = 0, a_PatientID = 0, a_DoctorID = 0,
     a_Date = 0, a_Diagnosis = [], a_Treatment = [], a_Notes = []\<rparr>"




subsection \<open>Request structs and binding\<close>











section \<open>The storage layer (GORM over SQLite) as the handlers use it\<close>

text \<open>
  A table is the list of its rows, in insertion order, together with the largest
  identifier the table has ever handed out: GORM's SQLite driver declares an unsigned
  integer primary key as \<open>INTEGER PRIMARY KEY AUTOINCREMENT\<close>, so a new row gets an
  identifier above every identifier that is or ever was in the table, also after a
  \<open>DELETE\<close>.

  The database handle is the five tables and the outcomes the storage engine will give
  to the statements to come (\<open>faults\<close>): \<open>Some msg\<close> makes the next statement fail with
  that message and leaves the tables as they are, \<open>None\<close> and the empty list let it run.
  One GORM call chain (\<open>db.Preload(...).First(...)\<close>, \<open>db.Create(...)\<close>, ...) is one
  statement of the model.
\<close>

record 'r table =
  rows :: "'r list"
  seq :: nat

record DB =
  patients :: "PatientRow table"
  doctors :: "DoctorRow table"
  appointments :: "AppointmentRow table"
  medical_tests :: "MedicalTestRow table"
  medical_histories :: "MedicalHistoryRow table"
  faults :: "string option list"

datatype gorm_error = ErrRecordNotFound | StorageError string


text \<open>
  What GORM derives from a struct and its tags: the primary key, the \<open>CreatedAt\<close>
  column it fills on creation, the table, and the CHECK constraint of the table
  (\<open>not null\<close> cannot fail: a Go string or time is never NULL).
\<close>

record 'r model =
  pk :: "'r \<Rightarrow> nat"
  set_pk :: "nat \<Rightarrow> 'r \<Rightarrow> 'r"
  created_at :: "'r \<Rightarrow> time"
  set_created_at :: "time \<Rightarrow> 'r \<Rightarrow> 'r"
  check_constraint :: "'r \<Rightarrow> string option"
  tbl :: "DB \<Rightarrow> 'r table"
  put_tbl :: "'r table \<Rightarrow> DB \<Rightarrow> DB"

definition PatientModel :: "PatientRow model" where
  "PatientModel =
     \<lparr>pk = p_ID, set_pk = (\<lambda>i r. r\<lparr>p_ID := i\<rparr>),
      created_at = p_CreatedAt, set_created_at = (\<lambda>t r. r\<lparr>p_CreatedAt := t\<rparr>),
      check_constraint =
        (\<lambda>r. if p_Gender r = ''male'' \<or> p_Gender r = ''female'' then None
             else Some ''CHECK constraint failed: chk_patients_gender''),
      tbl = patients, put_tbl = (\<lambda>t db. db\<lparr>patients := t\<rparr>)\<rparr>"

definition DoctorModel :: "DoctorRow model" where
  "DoctorModel =
     \<lparr>pk = d_ID, set_pk = (\<lambda>i r. r\<lparr>d_ID := i\<rparr>),
      created_at = d_CreatedAt, set_created_at = (\<lambda>t r. r\<lparr>d_CreatedAt := t\<rparr>),
      check_constraint = (\<lambda>r. None),
      tbl = doctors, put_tbl = (\<lambda>t db. db\<lparr>doctors := t\<rparr>)\<rparr>"

definition AppointmentModel :: "AppointmentRow model" where
  "AppointmentModel =
     \<lparr>pk = a_ID, set_pk = (\<lambda>i r. r\<lparr>a_ID := i\<rparr>),
      created_at = a_CreatedAt, set_created_at = (\<lambda>t r. r\<lparr>a_CreatedAt := t\<rparr>),
      check_constraint = (\<lambda>r. None),
      tbl = appointments, put_tbl = (\<lambda>t db. db\<lparr>appointments := t\<rparr>)\<rparr>"

definition MedicalTestModel :: "MedicalTestRow model" where
  "MedicalTestModel =
     \<lparr>pk = t_ID, set_pk = (\<lambda>i r. r\<lparr>t_ID := i\<rparr>),
      created_at = t_CreatedAt, set_created_at = (\<lambda>t r. r\<lparr>t_CreatedAt := t\<rparr>),
      check_constraint = (\<lambda>r. None),
      tbl = medical_tests, put_tbl = (\<lambda>t db. db\<lparr>medical_tests := t\<rparr>)\<rparr>"

definition MedicalHistoryModel :: "MedicalHistoryRow model" where
  "MedicalHistoryModel =
     \<lparr>pk = h_ID, set_pk = (\<lambda>i r. r\<lparr>h_ID := i\<rparr>),
      created_at = h_CreatedAt, set_created_at = (\<lambda>t r. r\<lparr>h_CreatedAt := t\<rparr>),
      check_constraint = (\<lambda>r. None),
      tbl = medical_histories, put_tbl = (\<lambda>t db. db\<lparr>medical_histories := t\<rparr>)\<rparr>"

definition begin_stmt :: "DB \<Rightarrow> string option \<times> DB" where
  "begin_stmt db =
     (case faults db of
        [] \<Rightarrow> (None, db)
      | f # fs \<Rightarrow> (f, db\<lparr>faults := fs\<rparr>))"

definition lookup :: "'r model \<Rightarrow> DB \<Rightarrow> nat \<Rightarrow> 'r option" where
  "lookup m db i = find (\<lambda>r. pk m r = i) (rows (tbl m db))"

definition last_id :: "'r model \<Rightarrow> DB \<Rightarrow> nat" where
  "last_id m db = fold max (map (pk m) (rows (tbl m db))) (seq (tbl m db))"

text \<open>
  The INSERT of one row: a zero primary key is replaced by the next identifier of the
  sequence, a given one is kept; the sequence remembers the largest identifier.
\<close>

definition insert_row :: "'r model \<Rightarrow> 'r \<Rightarrow> DB \<Rightarrow> 'r \<times> DB" where
  "insert_row m r db =
     (let i = (if pk m r = 0 then Suc (last_id m db) else pk m r);
          r' = set_pk m i r
      in (r', put_tbl m \<lparr>rows = rows (tbl m db) @ [r'], seq = max i (last_id m db)\<rparr> db))"

fun insert_rows :: "'r model \<Rightarrow> 'r list \<Rightarrow> DB \<Rightarrow> 'r list \<times> DB" where
  "insert_rows m [] db = ([], db)"
| "insert_rows m (r # rs) db =
     (case insert_row m r db of
        (r', db') \<Rightarrow> (case insert_rows m rs db' of (rs', db'') \<Rightarrow> (r' # rs', db'')))"

definition stamp :: "'r model \<Rightarrow> time \<Rightarrow> 'r \<Rightarrow> 'r" where
  "stamp m now r = (if created_at m r = 0 then set_created_at m now r else r)"

definition first_violation :: "'r model \<Rightarrow> DB \<Rightarrow> 'r list \<Rightarrow> string option" where
  "first_violation m db rs =
     (case List.map_filter (check_constraint m) rs of
        e # _ \<Rightarrow> Some e
      | [] \<Rightarrow>
          (if \<exists>r \<in> set rs. pk m r \<noteq> 0 \<and> lookup m db (pk m r) \<noteq> None
           then Some ''UNIQUE constraint failed'' else None))"



text \<open>\<open>db.Create(&x)\<close> and \<open>db.Create(&xs)\<close>: one INSERT statement, all rows or none.\<close>

definition db_CreateAll ::
  "'r model \<Rightarrow> time \<Rightarrow> 'r list \<Rightarrow> DB \<Rightarrow> (gorm_error + 'r list) \<times> DB" where
  "db_CreateAll m now rs db =
     (case begin_stmt db of
        (Some e, db') \<Rightarrow> (Inl (StorageError e), db')
      | (None, db') \<Rightarrow>
          (let rs1 = map (stamp m now) rs
           in case first_violation m db' rs1 of
                Some e \<Rightarrow> (Inl (StorageError e), db')
              | None \<Rightarrow> (case insert_rows m rs1 db' of (rs', db'') \<Rightarrow> (Inr rs', db''))))"




text \<open>\<open>db.Exec("DELETE FROM t")\<close>: empties the table; the sequence is not reset.\<close>

definition db_Exec_delete_from :: "'r model \<Rightarrow> DB \<Rightarrow> gorm_error option \<times> DB" where
  "db_Exec_delete_from m db =
     (case begin_stmt db of
        (Some e, db') \<Rightarrow> (Some (StorageError e), db')
      | (None, db') \<Rightarrow> (None, put_tbl m ((tbl m db')\<lparr>rows := []\<rparr>) db'))"

section \<open>The handlers (main.go)\<close>




subsection \<open>Preloading\<close>






subsection \<open>Patients\<close>








subsection \<open>Doctors\<close>




subsection \<open>Appointments\<close>












subsection \<open>Medical history\<close>




section \<open>The route table (main)\<close>

text \<open>
  The path is the list of its segments; \<open>:id\<close> matches any one segment.  A request the
  table does not mention reaches no handler of this program.
\<close>

datatype http_method = GET | POST | PUT | DELETE | OPTIONS





section \<open>Startup: the seed and main\<close>

text \<open>
  \<open>time.Date(y, m, d, 0, 0, 0, 0, time.UTC)\<close> for a date of the calendar, \<open>t.Add(d)\<close>
  and \<open>time.Hour\<close>, in nanoseconds.
\<close>

definition Hour :: int where
  "Hour = 3600 * 1000000000"

definition Add :: "time \<Rightarrow> int \<Rightarrow> time" where
  "Add t d = t + d"

definition leap :: "nat \<Rightarrow> bool" where
  "leap y = (y mod 4 = 0 \<and> (y mod 100 \<noteq> 0 \<or> y mod 400 = 0))"

definition days_before_month :: "nat \<Rightarrow> nat \<Rightarrow> nat" where
  "days_before_month y m =
     sum_list (take (m - 1) [31, if leap y then 29 else 28, 31, 30, 31, 30, 31, 31, 30, 31, 30, 31])"

definition days_before_year :: "nat \<Rightarrow> nat" where
  "days_before_year y =
     365 * (y - 1) + (y - 1) div 4 - (y - 1) div 100 + (y - 1) div 400"

definition Date :: "nat \<Rightarrow> nat \<Rightarrow> nat \<Rightarrow> time" where
  "Date y m d =
     int (days_before_year y + days_before_month y m + (d - 1)) * (24 * Hour)"

text \<open>
  The Cyrillic texts of the seed are given by their UTF-8 bytes, two hexadecimal digits
  a byte, with a transliteration beside them.
\<close>

definition hex_val :: "char \<Rightarrow> nat" where
  "hex_val c =
     (let n = (of_char c :: nat) in if 48 \<le> n \<and> n \<le> 57 then n - 48 else n - 55)"

fun utf8 :: "string \<Rightarrow> string" where
  "utf8 (a # b # cs) = char_of (16 * hex_val a + hex_val b) # utf8 cs"
| "utf8 _ = []"

definition zero_MedicalTestRow :: MedicalTestRow where
  "zero_MedicalTestRow = \<lparr>t_ID = 0, t_CreatedAt = 0, t_AppointmentID = 0, t_Name = [],
     t_Result = [], t_Unit = [], t_ReferenceRange = []\<rparr>"

definition zero_MedicalHistoryRow :: MedicalHistoryRow where
  "zero_MedicalHistoryRow = \<lparr>h_ID = 0, h_CreatedAt = 0, h_PatientID = 0,
     h_HistoryType = [], h_Description = [], h_StartDate = 0, h_Severity = [],
     h_Status = [], h_Notes = []\<rparr>"

definition seed_patients :: "PatientRow list" where
  "seed_patients =
    [zero_PatientRow
       \<lparr>p_FullName := utf8 \<comment> \<open>Ivanov Ivan Ivanovich\<close>
          (''D098D0B2D0B0D0BDD0BED0B220D098D0B2D0B0D0BD20D098D0B2D0B0D0BDD0BE'' @
          ''D0B2D0B8D187''),
        p_BirthDate := Date 1985 5 15,
        p_Gender := ''male'',
        p_Phone := ''+79990000001'',
        p_Email := ''ivanov@mail.ru''\<rparr>,
     zero_PatientRow
       \<lparr>p_FullName := utf8 \<comment> \<open>Petrova Mariya Sergeevna\<close>
          (''D09FD0B5D182D180D0BED0B2D0B020D09CD0B0D180D0B8D18F20D0A1D0B5D180'' @
          ''D0B3D0B5D0B5D0B2D0BDD0B0''),
        p_BirthDate := Date 1990 8 22,
        p_Gender := ''female'',
        p_Phone := ''+79990000002'',
        p_Email := ''petrova@mail.ru''\<rparr>,
     zero_PatientRow
       \<lparr>p_FullName := utf8 \<comment> \<open>Sidorov Aleksey Vladimirovich\<close>
          (''D0A1D0B8D0B4D0BED180D0BED0B220D090D0BBD0B5D0BAD181D0B5D0B920D092'' @
          ''D0BBD0B0D0B4D0B8D0BCD0B8D180D0BED0B2D0B8D187''),
        p_BirthDate := Date 1978 3 10,
        p_Gender := ''male'',
        p_Phone := ''+79990000003'',
        p_Email := ''sidorov@mail.ru''\<rparr>,
     zero_PatientRow
       \<lparr>p_FullName := utf8 \<comment> \<open>Kuznetsova Elena Viktorovna\<close>
          (''D09AD183D0B7D0BDD0B5D186D0BED0B2D0B020D095D0BBD0B5D0BDD0B020D092'' @
          ''D0B8D0BAD182D0BED180D0BED0B2D0BDD0B0''),
        p_BirthDate := Date 1982 11 5,
        p_Gender := ''female'',
        p_Phone := ''+79990000004'',
        p_Email := ''kuznetsova@mail.ru''\<rparr>,
     zero_PatientRow
       \<lparr>p_FullName := utf8 \<comment> \<open>Smirnov Dmitriy Petrovich\<close>
          (''D0A1D0BCD0B8D180D0BDD0BED0B220D094D0BCD0B8D182D180D0B8D0B920D09F'' @
          ''D0B5D182D180D0BED0B2D0B8D187''),
        p_BirthDate := Date 1995 7 30,
        p_Gender := ''male'',
        p_Phone := ''+79990000005'',
        p_Email := ''smirnov@mail.ru''\<rparr>]"

definition seed_doctors :: "DoctorRow list" where
  "seed_doctors =
    [zero_DoctorRow
       \<lparr>d_FullName := utf8 \<comment> \<open>Prokhorov Andrey Vasilevich\<close>
          (''D09FD180D0BED185D0BED180D0BED0B220D090D0BDD0B4D180D0B5D0B920D092'' @
          ''D0B0D181D0B8D0BBD18CD0B5D0B2D0B8D187''),
        d_Specialization := utf8 \<comment> \<open>Kardiolog\<close>
          ''D09AD0B0D180D0B4D0B8D0BED0BBD0BED0B3'',
        d_Phone := ''+79991111111'',
        d_Email := ''prokhorov@clinic.ru''\<rparr>,
     zero_DoctorRow
       \<lparr>d_FullName := utf8 \<comment> \<open>Gromova Olga Igorevna\<close>
          (''D093D180D0BED0BCD0BED0B2D0B020D09ED0BBD18CD0B3D0B020D098D0B3D0BE'' @
          ''D180D0B5D0B2D0BDD0B0''),
        d_Specialization := utf8 \<comment> \<open>Nevrolog\<close>
          ''D09DD0B5D0B2D180D0BED0BBD0BED0B3'',
        d_Phone := ''+79991111112'',
        d_Email := ''gromova@clinic.ru''\<rparr>,
     zero_DoctorRow
       \<lparr>d_FullName := utf8 \<comment> \<open>Belov Stanislav Mikhaylovich\<close>
          (''D091D0B5D0BBD0BED0B220D0A1D182D0B0D0BDD0B8D181D0BBD0B0D0B220D09C'' @
          ''D0B8D185D0B0D0B9D0BBD0BED0B2D0B8D187''),
        d_Specialization := utf8 \<comment> \<open>Terapevt\<close>
          ''D0A2D0B5D180D0B0D0BFD0B5D0B2D182'',
        d_Phone := ''+79991111113'',
        d_Email := ''belov@clinic.ru''\<rparr>,
     zero_DoctorRow
       \<lparr>d_FullName := utf8 \<comment> \<open>Kovalchuk Anna Denisovna\<close>
          (''D09AD0BED0B2D0B0D0BBD18CD187D183D0BA20D090D0BDD0BDD0B020D094D0B5'' @
          ''D0BDD0B8D181D0BED0B2D0BDD0B0''),
        d_Specialization := utf8 \<comment> \<open>Oftalmolog\<close>
          ''D09ED184D182D0B0D0BBD18CD0BCD0BED0BBD0BED0B3'',
        d_Phone := ''+79991111114'',
        d_Email := ''kovalchuk@clinic.ru''\<rparr>]"

definition seed_appointments :: "(nat \<Rightarrow> time) \<Rightarrow> AppointmentRow list" where
  "seed_appointments clk =
    [zero_AppointmentRow
       \<lparr>a_PatientID := 1,
        a_DoctorID := 1,
        a_Date := Add (clk 2) (-24 * Hour),
        a_Diagnosis := utf8 \<comment> \<open>Gipertoniya\<close>
          ''D093D0B8D0BFD0B5D180D182D0BED0BDD0B8D18F'',
        a_Treatment := utf8 \<comment> \<open>Kontrol davleniya, lizinopril 10 mg 1 raz v den\<close>
          (''D09AD0BED0BDD182D180D0BED0BBD18C20D0B4D0B0D0B2D0BBD0B5D0BDD0B8D1'' @
          ''8F2C20D0BBD0B8D0B7D0B8D0BDD0BED0BFD180D0B8D0BB20313020D0BCD0B320'' @
          ''3120D180D0B0D0B720D0B220D0B4D0B5D0BDD18C''),
        a_Notes := utf8 \<comment> \<open>Zhaloby na golovnye boli\<close>
          (''D096D0B0D0BBD0BED0B1D18B20D0BDD0B020D0B3D0BED0BBD0BED0B2D0BDD18B'' @
          ''D0B520D0B1D0BED0BBD0B8'')\<rparr>,
     zero_AppointmentRow
       \<lparr>a_PatientID := 2,
        a_DoctorID := 2,
        a_Date := Add (clk 3) (-12 * Hour),
        a_Diagnosis := utf8 \<comment> \<open>Migren\<close>
          ''D09CD0B8D0B3D180D0B5D0BDD18C'',
        a_Treatment := utf8 \<comment> \<open>Ibuprofen pri bolyakh, rezhim sna\<close>
          (''D098D0B1D183D0BFD180D0BED184D0B5D0BD20D0BFD180D0B820D0B1D0BED0BB'' @
          ''D18FD1852C20D180D0B5D0B6D0B8D0BC20D181D0BDD0B0''),
        a_Notes := utf8 \<comment> \<open>Rekomendovan otdykh\<close>
          (''D0A0D0B5D0BAD0BED0BCD0B5D0BDD0B4D0BED0B2D0B0D0BD20D0BED182D0B4D1'' @
          ''8BD185'')\<rparr>,
     zero_AppointmentRow
       \<lparr>a_PatientID := 3,
        a_DoctorID := 3,
        a_Date := Add (clk 4) (-6 * Hour),
        a_Diagnosis := utf8 \<comment> \<open>ORVI\<close>
          ''D09ED0A0D092D098'',
        a_Treatment := utf8 \<comment> \<open>Obilnoe pite, paratsetamol\<close>
          (''D09ED0B1D0B8D0BBD18CD0BDD0BED0B520D0BFD0B8D182D18CD0B52C20D0BFD0'' @
          ''B0D180D0B0D186D0B5D182D0B0D0BCD0BED0BB''),
        a_Notes := utf8 \<comment> \<open>Temperatura 37.8\<close>
          ''D0A2D0B5D0BCD0BFD0B5D180D0B0D182D183D180D0B02033372E38''\<rparr>,
     zero_AppointmentRow
       \<lparr>a_PatientID := 4,
        a_DoctorID := 4,
        a_Date := Add (clk 5) (-3 * Hour),
        a_Diagnosis := utf8 \<comment> \<open>Konyunktivit\<close>
          ''D09AD0BED0BDD18AD18ED0BDD0BAD182D0B8D0B2D0B8D182'',
        a_Treatment := utf8 \<comment> \<open>Glaznye kapli Oftalmoferon\<close>
          (''D093D0BBD0B0D0B7D0BDD18BD0B520D0BAD0B0D0BFD0BBD0B820D09ED184D182'' @
          ''D0B0D0BBD18CD0BCD0BED184D0B5D180D0BED0BD''),
        a_Notes := utf8 \<comment> \<open>Naznachen povtornyy priem cherez 5 dney\<close>
          (''D09DD0B0D0B7D0BDD0B0D187D0B5D0BD20D0BFD0BED0B2D182D0BED180D0BDD1'' @
          ''8BD0B920D0BFD180D0B8D0B5D0BC20D187D0B5D180D0B5D0B7203520D0B4D0BD'' @
          ''D0B5D0B9'')\<rparr>,
     zero_AppointmentRow
       \<lparr>a_PatientID := 5,
        a_DoctorID := 1,
        a_Date := clk 6,
        a_Diagnosis := utf8 \<comment> \<open>Aritmiya\<close>
          ''D090D180D0B8D182D0BCD0B8D18F'',
        a_Treatment := utf8 \<comment> \<open>Kholterovskoe monitorirovanie\<close>
          (''D0A5D0BED0BBD182D0B5D180D0BED0B2D181D0BAD0BED0B520D0BCD0BED0BDD0'' @
          ''B8D182D0BED180D0B8D180D0BED0B2D0B0D0BDD0B8D0B5''),
        a_Notes := utf8 \<comment> \<open>Napravlen na dopolnitelnoe obsledovanie\<close>
          (''D09DD0B0D0BFD180D0B0D0B2D0BBD0B5D0BD20D0BDD0B020D0B4D0BED0BFD0BE'' @
          ''D0BBD0BDD0B8D182D0B5D0BBD18CD0BDD0BED0B520D0BED0B1D181D0BBD0B5D0'' @
          ''B4D0BED0B2D0B0D0BDD0B8D0B5'')\<rparr>]"

definition seed_medicalTests :: "MedicalTestRow list" where
  "seed_medicalTests =
    [zero_MedicalTestRow
       \<lparr>t_AppointmentID := 1,
        t_Name := utf8 \<comment> \<open>Arterialnoe davlenie\<close>
          (''D090D180D182D0B5D180D0B8D0B0D0BBD18CD0BDD0BED0B520D0B4D0B0D0B2D0'' @
          ''BBD0B5D0BDD0B8D0B5''),
        t_Result := ''140/90'',
        t_Unit := utf8 \<comment> \<open>mm rt.st.\<close>
          ''D0BCD0BC20D180D1822ED181D1822E'',
        t_ReferenceRange := ''120/80''\<rparr>,
     zero_MedicalTestRow
       \<lparr>t_AppointmentID := 1,
        t_Name := utf8 \<comment> \<open>Kholesterin\<close>
          ''D0A5D0BED0BBD0B5D181D182D0B5D180D0B8D0BD'',
        t_Result := ''5.2'',
        t_Unit := utf8 \<comment> \<open>mmol/l\<close>
          ''D0BCD0BCD0BED0BBD18C2FD0BB'',
        t_ReferenceRange := ''3.5-5.2''\<rparr>,
     zero_MedicalTestRow
       \<lparr>t_AppointmentID := 2,
        t_Name := utf8 \<comment> \<open>MRT golovnogo mozga\<close>
          (''D09CD0A0D0A220D0B3D0BED0BBD0BED0B2D0BDD0BED0B3D0BE20D0BCD0BED0B7'' @
          ''D0B3D0B0''),
        t_Result := utf8 \<comment> \<open>Bez patologiy\<close>
          ''D091D0B5D0B720D0BFD0B0D182D0BED0BBD0BED0B3D0B8D0B9'',
        t_Unit := ''-'',
        t_ReferenceRange := ''-''\<rparr>,
     zero_MedicalTestRow
       \<lparr>t_AppointmentID := 3,
        t_Name := utf8 \<comment> \<open>Temperatura tela\<close>
          ''D0A2D0B5D0BCD0BFD0B5D180D0B0D182D183D180D0B020D182D0B5D0BBD0B0'',
        t_Result := ''37.8'',
        t_Unit := utf8 \<comment> \<open>deg. C\<close>
          ''C2B043'',
        t_ReferenceRange := ''36.6''\<rparr>,
     zero_MedicalTestRow
       \<lparr>t_AppointmentID := 4,
        t_Name := utf8 \<comment> \<open>Ostrota zreniya\<close>
          ''D09ED181D182D180D0BED182D0B020D0B7D180D0B5D0BDD0B8D18F'',
        t_Result := ''0.8'',
        t_Unit := utf8 \<comment> \<open>usl.ed.\<close>
          ''D183D181D0BB2ED0B5D0B42E'',
        t_ReferenceRange := ''1.0''\<rparr>,
     zero_MedicalTestRow
       \<lparr>t_AppointmentID := 5,
        t_Name := utf8 \<comment> \<open>EKG\<close>
          ''D0ADD09AD093'',
        t_Result := utf8 \<comment> \<open>Mertsatelnaya aritmiya\<close>
          (''D09CD0B5D180D186D0B0D182D0B5D0BBD18CD0BDD0B0D18F20D0B0D180D0B8D1'' @
          ''82D0BCD0B8D18F''),
        t_Unit := ''-'',
        t_ReferenceRange := utf8 \<comment> \<open>Sinusovyy ritm\<close>
          ''D0A1D0B8D0BDD183D181D0BED0B2D18BD0B920D180D0B8D182D0BC''\<rparr>]"

definition seed_medicalHistories :: "MedicalHistoryRow list" where
  "seed_medicalHistories =
    [zero_MedicalHistoryRow
       \<lparr>h_PatientID := 1,
        h_HistoryType := ''allergy'',
        h_Description := utf8 \<comment> \<open>Allergiya na penitsillin\<close>
          (''D090D0BBD0BBD0B5D180D0B3D0B8D18F20D0BDD0B020D0BFD0B5D0BDD0B8D186'' @
          ''D0B8D0BBD0BBD0B8D0BD''),
        h_StartDate := Date 2005 1 1,
        h_Severity := ''severe'',
        h_Status := ''active'',
        h_Notes := utf8 \<comment> \<open>Anafilakticheskiy shok pri prieme\<close>
          (''D090D0BDD0B0D184D0B8D0BBD0B0D0BAD182D0B8D187D0B5D181D0BAD0B8D0B9'' @
          ''20D188D0BED0BA20D0BFD180D0B820D0BFD180D0B8D0B5D0BCD0B5'')\<rparr>,
     zero_MedicalHistoryRow
       \<lparr>h_PatientID := 2,
        h_HistoryType := ''allergy'',
        h_Description := utf8 \<comment> \<open>Sezonnaya allergiya na pyltsu\<close>
          (''D0A1D0B5D0B7D0BED0BDD0BDD0B0D18F20D0B0D0BBD0BBD0B5D180D0B3D0B8D1'' @
          ''8F20D0BDD0B020D0BFD18BD0BBD18CD186D183''),
        h_StartDate := Date 2010 1 1,
        h_Severity := ''moderate'',
        h_Status := ''active'',
        h_Notes := utf8 \<comment> \<open>Obostrenie vesnoy\<close>
          (''D09ED0B1D0BED181D182D180D0B5D0BDD0B8D0B520D0B2D0B5D181D0BDD0BED0'' @
          ''B9'')\<rparr>,
     zero_MedicalHistoryRow
       \<lparr>h_PatientID := 1,
        h_HistoryType := ''chronic'',
        h_Description := utf8 \<comment> \<open>Arterialnaya gipertenziya\<close>
          (''D090D180D182D0B5D180D0B8D0B0D0BBD18CD0BDD0B0D18F20D0B3D0B8D0BFD0'' @
          ''B5D180D182D0B5D0BDD0B7D0B8D18F''),
        h_StartDate := Date 2015 1 1,
        h_Severity := ''moderate'',
        h_Status := ''chronic'',
        h_Notes := utf8 \<comment> \<open>Postoyannyy priem preparatov\<close>
          (''D09FD0BED181D182D0BED18FD0BDD0BDD18BD0B920D0BFD180D0B8D0B5D0BC20'' @
          ''D0BFD180D0B5D0BFD0B0D180D0B0D182D0BED0B2'')\<rparr>,
     zero_MedicalHistoryRow
       \<lparr>h_PatientID := 3,
        h_HistoryType := ''chronic'',
        h_Description := utf8 \<comment> \<open>Sakharnyy diabet 2 tipa\<close>
          (''D0A1D0B0D185D0B0D180D0BDD18BD0B920D0B4D0B8D0B0D0B1D0B5D182203220'' @
          ''D182D0B8D0BFD0B0''),
        h_StartDate := Date 2018 1 1,
        h_Severity := ''mild'',
        h_Status := ''chronic'',
        h_Notes := utf8 \<comment> \<open>Kontrol diety\<close>
          ''D09AD0BED0BDD182D180D0BED0BBD18C20D0B4D0B8D0B5D182D18B''\<rparr>,
     zero_MedicalHistoryRow
       \<lparr>h_PatientID := 4,
        h_HistoryType := ''chronic'',
        h_Description := utf8 \<comment> \<open>Bronkhialnaya astma\<close>
          (''D091D180D0BED0BDD185D0B8D0B0D0BBD18CD0BDD0B0D18F20D0B0D181D182D0'' @
          ''BCD0B0''),
        h_StartDate := Date 2012 1 1,
        h_Severity := ''mild'',
        h_Status := ''chronic'',
        h_Notes := utf8 \<comment> \<open>Ingalyator po neobkhodimosti\<close>
          (''D098D0BDD0B3D0B0D0BBD18FD182D0BED18020D0BFD0BE20D0BDD0B5D0BED0B1'' @
          ''D185D0BED0B4D0B8D0BCD0BED181D182D0B8'')\<rparr>,
     zero_MedicalHistoryRow
       \<lparr>h_PatientID := 2,
        h_HistoryType := ''surgery'',
        h_Description := utf8 \<comment> \<open>Appendektomiya\<close>
          ''D090D0BFD0BFD0B5D0BDD0B4D18DD0BAD182D0BED0BCD0B8D18F'',
        h_StartDate := Date 2015 6 15,
        h_Severity := ''moderate'',
        h_Status := ''resolved'',
        h_Notes := utf8 \<comment> \<open>Vosstanovlenie proshlo bez oslozhneniy\<close>
          (''D092D0BED181D181D182D0B0D0BDD0BED0B2D0BBD0B5D0BDD0B8D0B520D0BFD1'' @
          ''80D0BED188D0BBD0BE20D0B1D0B5D0B720D0BED181D0BBD0BED0B6D0BDD0B5D0'' @
          ''BDD0B8D0B9'')\<rparr>,
     zero_MedicalHistoryRow
       \<lparr>h_PatientID := 5,
        h_HistoryType := ''surgery'',
        h_Description := utf8 \<comment> \<open>Artroskopiya kolennogo sustava\<close>
          (''D090D180D182D180D0BED181D0BAD0BED0BFD0B8D18F20D0BAD0BED0BBD0B5D0'' @
          ''BDD0BDD0BED0B3D0BE20D181D183D181D182D0B0D0B2D0B0''),
        h_StartDate := Date 2020 3 10,
        h_Severity := ''moderate'',
        h_Status := ''resolved'',
        h_Notes := utf8 \<comment> \<open>Sportivnaya travma\<close>
          (''D0A1D0BFD0BED180D182D0B8D0B2D0BDD0B0D18F20D182D180D0B0D0B2D0BCD0'' @
          ''B0'')\<rparr>,
     zero_MedicalHistoryRow
       \<lparr>h_PatientID := 1,
        h_HistoryType := ''family'',
        h_Description := utf8 \<comment> \<open>Infarkt miokarda u ottsa v 55 let\<close>
          (''D098D0BDD184D0B0D180D0BAD18220D0BCD0B8D0BED0BAD0B0D180D0B4D0B020'' @
          ''D18320D0BED182D186D0B020D0B220353520D0BBD0B5D182''),
        h_StartDate := Date 2010 1 1,
        h_Severity := ''severe'',
        h_Status := ''active'',
        h_Notes := utf8 \<comment> \<open>Nasledstvennaya predraspolozhennost\<close>
          (''D09DD0B0D181D0BBD0B5D0B4D181D182D0B2D0B5D0BDD0BDD0B0D18F20D0BFD1'' @
          ''80D0B5D0B4D180D0B0D181D0BFD0BED0BBD0BED0B6D0B5D0BDD0BDD0BED181D1'' @
          ''82D18C'')\<rparr>,
     zero_MedicalHistoryRow
       \<lparr>h_PatientID := 3,
        h_HistoryType := ''family'',
        h_Description := utf8 \<comment> \<open>Onkologicheskie zabolevaniya u rodstvennikov\<close>
          (''D09ED0BDD0BAD0BED0BBD0BED0B3D0B8D187D0B5D181D0BAD0B8D0B520D0B7D0'' @
          ''B0D0B1D0BED0BBD0B5D0B2D0B0D0BDD0B8D18F20D18320D180D0BED0B4D181D1'' @
          ''82D0B2D0B5D0BDD0BDD0B8D0BAD0BED0B2''),
        h_StartDate := Date 2000 1 1,
        h_Severity := ''moderate'',
        h_Status := ''active'',
        h_Notes := utf8 \<comment> \<open>Babushka - rak molochnoy zhelezy\<close>
          (''D091D0B0D0B1D183D188D0BAD0B0202D20D180D0B0D0BA20D0BCD0BED0BBD0BE'' @
          ''D187D0BDD0BED0B920D0B6D0B5D0BBD0B5D0B7D18B'')\<rparr>,
     zero_MedicalHistoryRow
       \<lparr>h_PatientID := 3,
        h_HistoryType := ''habit'',
        h_Description := utf8 \<comment> \<open>Kurenie\<close>
          ''D09AD183D180D0B5D0BDD0B8D0B5'',
        h_StartDate := Date 2000 1 1,
        h_Severity := ''moderate'',
        h_Status := ''active'',
        h_Notes := utf8 \<comment> \<open>10 sigaret v den, 20 let stazha\<close>
          (''313020D181D0B8D0B3D0B0D180D0B5D18220D0B220D0B4D0B5D0BDD18C2C2032'' @
          ''3020D0BBD0B5D18220D181D182D0B0D0B6D0B0'')\<rparr>,
     zero_MedicalHistoryRow
       \<lparr>h_PatientID := 5,
        h_HistoryType := ''habit'',
        h_Description := utf8 \<comment> \<open>Zloupotreblenie alkogolem\<close>
          (''D097D0BBD0BED183D0BFD0BED182D180D0B5D0B1D0BBD0B5D0BDD0B8D0B520D0'' @
          ''B0D0BBD0BAD0BED0B3D0BED0BBD0B5D0BC''),
        h_StartDate := Date 2018 1 1,
        h_Severity := ''mild'',
        h_Status := ''resolved'',
        h_Notes := utf8 \<comment> \<open>Vozderzhanie 2 goda\<close>
          (''D092D0BED0B7D0B4D0B5D180D0B6D0B0D0BDD0B8D0B5203220D0B3D0BED0B4D0'' @
          ''B0'')\<rparr>]"

text \<open>
  \<open>seedDatabase\<close> runs ten statements and looks at the result of none of them.  The
  clock is read ten times on the way: \<open>clk 0\<close> and \<open>clk 1\<close> by the creation of the
  patients and of the doctors, \<open>clk 2\<close> to \<open>clk 6\<close> by the five \<open>time.Now()\<close> of the
  appointments, \<open>clk 7\<close>, \<open>clk 8\<close> and \<open>clk 9\<close> by the creation of the appointments, of
  the medical tests and of the medical histories.
\<close>

definition seedDatabase :: "(nat \<Rightarrow> time) \<Rightarrow> DB \<Rightarrow> DB" where
  "seedDatabase clk db =
     (let db1 = snd (db_Exec_delete_from MedicalHistoryModel db);
          db2 = snd (db_Exec_delete_from MedicalTestModel db1);
          db3 = snd (db_Exec_delete_from AppointmentModel db2);
          db4 = snd (db_Exec_delete_from PatientModel db3);
          db5 = snd (db_Exec_delete_from DoctorModel db4);
          db6 = snd (db_CreateAll PatientModel (clk 0) seed_patients db5);
          db7 = snd (db_CreateAll DoctorModel (clk 1) seed_doctors db6);
          db8 = snd (db_CreateAll AppointmentModel (clk 7) (seed_appointments clk) db7);
          db9 = snd (db_CreateAll MedicalTestModel (clk 8) seed_medicalTests db8)
      in snd (db_CreateAll MedicalHistoryModel (clk 9) seed_medicalHistories db9))"

text \<open>
  \<open>main\<close> up to \<open>router.Run\<close>: \<open>gorm.Open\<close> and \<open>AutoMigrate\<close> may fail (their errors are
  the first two parameters), the database file holds \<open>file\<close> when the process starts.
  The process either panics or serves requests on the seeded database.
\<close>

datatype process = Panic string | Serving DB

definition main :: "string option \<Rightarrow> string option \<Rightarrow> (nat \<Rightarrow> time) \<Rightarrow> DB \<Rightarrow> process" where
  "main open_err migrate_err clk file =
     (case open_err of
        Some err \<Rightarrow> Panic ''Failed to connect to database''
      | None \<Rightarrow>
          (case migrate_err of
             Some err \<Rightarrow> Panic ''Database migration failed''
           | None \<Rightarrow> Serving (seedDatabase clk file)))"

text \<open>The database of a fresh file after \<open>AutoMigrate\<close>: five empty tables.\<close>

definition empty_DB :: DB where
  "empty_DB =
     \<lparr>patients = \<lparr>rows = [], seq = 0\<rparr>, doctors = \<lparr>rows = [], seq = 0\<rparr>,
      appointments = \<lparr>rows = [], seq = 0\<rparr>, medical_tests = \<lparr>rows = [], seq = 0\<rparr>,
      medical_histories = \<lparr>rows = [], seq = 0\<rparr>, faults = []\<rparr>"

section \<open>The API as a whole\<close>



text \<open>No appointment and no history entry refers to the identifier 0.\<close>

definition no_zero_refs :: "DB \<Rightarrow> bool" where
  "no_zero_refs db =
     (list_all (\<lambda>a. a_PatientID a \<noteq> 0 \<and> a_DoctorID a \<noteq> 0) (rows (appointments db)) \<and>
      list_all (\<lambda>h. h_PatientID h \<noteq> 0) (rows (medical_histories db)))"

text \<open>No table's identifier sequence is lower in the second database.\<close>

definition seq_le :: "DB \<Rightarrow> DB \<Rightarrow> bool" where
  "seq_le db db' =
     (seq (patients db) \<le> seq (patients db') \<and> seq (doctors db) \<le> seq (doctors db') \<and>
      seq (appointments db) \<le> seq (appointments db') \<and>
      seq (medical_tests db) \<le> seq (medical_tests db') \<and>
      seq (medical_histories db) \<le> seq (medical_histories db'))"

section \<open>Sample data\<close>

text \<open>A small database: one patient, one doctor, one appointment, one history entry.\<close>

definition sample_patient :: PatientRow where
  "sample_patient = \<lparr>p_ID = 1, p_CreatedAt = 1000, p_FullName = ''Test User'',
     p_BirthDate = 500, p_Gender = ''male'', p_Phone = ''+79990000001'',
     p_Email = ''test@mail.ru''\<rparr>"

definition sample_doctor :: DoctorRow where
  "sample_doctor = \<lparr>d_ID = 1, d_CreatedAt = 1000, d_FullName = ''Doctor One'',
     d_Specialization = ''Therapist'', d_Phone = ''+79991111111'',
     d_Email = ''one@clinic.ru''\<rparr>"

definition sample_appointment :: AppointmentRow where
  "sample_appointment = \<lparr>a_ID = 1, a_CreatedAt = 1000, a_PatientID = 1, a_DoctorID = 1,
     a_Date = 900, a_Diagnosis = ''Flu'', a_Treatment = ''Rest'', a_Notes = ''None''\<rparr>"

definition sample_history :: MedicalHistoryRow where
  "sample_history = \<lparr>h_ID = 1, h_CreatedAt = 1000, h_PatientID = 1,
     h_HistoryType = ''allergy'', h_Description = ''Pollen'', h_StartDate = 300,
     h_Severity = ''mild'', h_Status = ''active'', h_Notes = []\<rparr>"

definition sample_DB :: DB where
  "sample_DB =
     \<lparr>patients = \<lparr>rows = [sample_patient], seq = 1\<rparr>,
      doctors = \<lparr>rows = [sample_doctor], seq = 1\<rparr>,
      appointments = \<lparr>rows = [sample_appointment], seq = 1\<rparr>,
      medical_tests = \<lparr>rows = [], seq = 0\<rparr>,
      medical_histories = \<lparr>rows = [sample_history], seq = 1\<rparr>,
      faults = []\<rparr>"




text \<open>A clock that stands still, and two instants a day apart.\<close>

definition clock_at :: "time \<Rightarrow> nat \<Rightarrow> time" where
  "clock_at t k = t"

definition start_A :: time where
  "start_A = Date 2025 1 1"

definition start_B :: time where
  "start_B = Date 2025 1 2"




text \<open>The same database on a storage that fails every statement of the seed.\<close>

definition broken_DB :: DB where
  "broken_DB = sample_DB\<lparr>faults :=
     [Some ''disk I/O error'', Some ''disk I/O error'', Some ''disk I/O error'',
      Some ''disk I/O error'', Some ''disk I/O error'', Some ''disk I/O error'',
      Some ''disk I/O error'', Some ''disk I/O error'', Some ''disk I/O error'',
      Some ''disk I/O error'']\<rparr>"

section \<open>Basic facts about the storage layer\<close>

lemma begin_stmt_ok: "faults db = [] \<Longrightarrow> begin_stmt db = (None, db)"
  by (simp add: begin_stmt_def)



lemma lookup_faults [simp]:
  "lookup PatientModel (db\<lparr>faults := fs\<rparr>) i = lookup PatientModel db i"
  "lookup DoctorModel (db\<lparr>faults := fs\<rparr>) i = lookup DoctorModel db i"
  "lookup AppointmentModel (db\<lparr>faults := fs\<rparr>) i = lookup AppointmentModel db i"
  "lookup MedicalHistoryModel (db\<lparr>faults := fs\<rparr>) i = lookup MedicalHistoryModel db i"
  by (simp_all add: lookup_def PatientModel_def DoctorModel_def AppointmentModel_def
        MedicalHistoryModel_def)




lemma begin_stmt_pair: "begin_stmt db = (fst (begin_stmt db), db\<lparr>faults := tl (faults db)\<rparr>)"
  by (cases "faults db") (simp_all add: begin_stmt_def)









section \<open>Binding\<close>





section \<open>Deleting\<close>



section \<open>Errors of the get-by-id handlers\<close>




section \<open>References to the identifier 0\<close>

lemma no_zero_refs_faults [simp]: "no_zero_refs (db\<lparr>faults := fs\<rparr>) = no_zero_refs db"
  by (simp add: no_zero_refs_def)






























section \<open>No referential integrity on creation\<close>



section \<open>Startup\<close>

text \<open>
  \<^bold>\<open>C8\<close>, as \<open>main\<close> has it.  Only a failure to open the database or to migrate the
  schema aborts the start.  Whatever the ten statements of the seed do, fail or not,
  \<open>main\<close> goes on to serve requests on the database the seed leaves behind.
\<close>

theorem seed_failure_is_ignored:
  "main None None clk file = Serving (seedDatabase clk file) \<and>
   (main open_err migrate_err clk file = Panic msg \<longleftrightarrow>
      (open_err \<noteq> None \<and> msg = ''Failed to connect to database'') \<or>
      (open_err = None \<and> migrate_err \<noteq> None \<and> msg = ''Database migration failed''))"
  by (cases open_err; cases migrate_err) (auto simp: main_def)

theorem seed_failure_is_ignored_witness:
  "main None None (clock_at 5000) broken_DB = Serving (seedDatabase (clock_at 5000) broken_DB) \<and>
   main (Some ''unable to open database file'') None (clock_at 5000) sample_DB =
     Panic ''Failed to connect to database''"
  using seed_failure_is_ignored [of "clock_at 5000" broken_DB]
    seed_failure_is_ignored [of "clock_at 5000" sample_DB
      "Some ''unable to open database file''" None "''Failed to connect to database''"]
  by simp

text \<open>
  Every statement of the seed fails, and the process serves the rows that were in the
  file, unseeded.
\<close>

theorem seed_failure_counterexample:
  "main None None (clock_at 5000) broken_DB = Serving sample_DB"
  by (simp add: main_def seedDatabase_def broken_DB_def db_Exec_delete_from_def
        db_CreateAll_def begin_stmt_def sample_DB_def)


section \<open>Deleting and then getting\<close>












section \<open>Filtered lists\<close>






section \<open>Replacing\<close>





















section \<open>The seed\<close>

lemma db_Exec_delete_from_ok:
  "faults db = [] \<Longrightarrow>
   db_Exec_delete_from m db = (None, put_tbl m ((tbl m db)\<lparr>rows := []\<rparr>) db)"
  by (simp add: db_Exec_delete_from_def begin_stmt_ok)

lemma seed_deletes:
  assumes "faults db = []"
  shows "snd (db_Exec_delete_from DoctorModel
           (snd (db_Exec_delete_from PatientModel
              (snd (db_Exec_delete_from AppointmentModel
                 (snd (db_Exec_delete_from MedicalTestModel
                    (snd (db_Exec_delete_from MedicalHistoryModel db))))))))) =
         \<lparr>patients = \<lparr>rows = [], seq = seq (patients db)\<rparr>,
          doctors = \<lparr>rows = [], seq = seq (doctors db)\<rparr>,
          appointments = \<lparr>rows = [], seq = seq (appointments db)\<rparr>,
          medical_tests = \<lparr>rows = [], seq = seq (medical_tests db)\<rparr>,
          medical_histories = \<lparr>rows = [], seq = seq (medical_histories db)\<rparr>,
          faults = []\<rparr>"
proof -
  have 1: "snd (db_Exec_delete_from MedicalHistoryModel db) =
             db\<lparr>medical_histories := \<lparr>rows = [], seq = seq (medical_histories db)\<rparr>\<rparr>"
    using assms by (simp add: db_Exec_delete_from_ok MedicalHistoryModel_def)
  have 2: "snd (db_Exec_delete_from MedicalTestModel
             (db\<lparr>medical_histories := \<lparr>rows = [], seq = seq (medical_histories db)\<rparr>\<rparr>)) =
           db\<lparr>medical_histories := \<lparr>rows = [], seq = seq (medical_histories db)\<rparr>,
              medical_tests := \<lparr>rows = [], seq = seq (medical_tests db)\<rparr>\<rparr>"
    using assms by (simp add: db_Exec_delete_from_ok MedicalTestModel_def)
  have 3: "snd (db_Exec_delete_from AppointmentModel
             (db\<lparr>medical_histories := \<lparr>rows = [], seq = seq (medical_histories db)\<rparr>,
              medical_tests := \<lparr>rows = [], seq = seq (medical_tests db)\<rparr>\<rparr>)) =
           db\<lparr>medical_histories := \<lparr>rows = [], seq = seq (medical_histories db)\<rparr>,
              medical_tests := \<lparr>rows = [], seq = seq (medical_tests db)\<rparr>,
              appointments := \<lparr>rows = [], seq = seq (appointments db)\<rparr>\<rparr>"
    using assms by (simp add: db_Exec_delete_from_ok AppointmentModel_def)
  have 4: "snd (db_Exec_delete_from PatientModel
             (db\<lparr>medical_histories := \<lparr>rows = [], seq = seq (medical_histories db)\<rparr>,
              medical_tests := \<lparr>rows = [], seq = seq (medical_tests db)\<rparr>,
              appointments := \<lparr>rows = [], seq = seq (appointments db)\<rparr>\<rparr>)) =
           db\<lparr>medical_histories := \<lparr>rows = [], seq = seq (medical_histories db)\<rparr>,
              medical_tests := \<lparr>rows = [], seq = seq (medical_tests db)\<rparr>,
              appointments := \<lparr>rows = [], seq = seq (appointments db)\<rparr>,
              patients := \<lparr>rows = [], seq = seq (patients db)\<rparr>\<rparr>"
    using assms by (simp add: db_Exec_delete_from_ok PatientModel_def)
  have 5: "snd (db_Exec_delete_from DoctorModel
             (db\<lparr>medical_histories := \<lparr>rows = [], seq = seq (medical_histories db)\<rparr>,
              medical_tests := \<lparr>rows = [], seq = seq (medical_tests db)\<rparr>,
              appointments := \<lparr>rows = [], seq = seq (appointments db)\<rparr>,
              patients := \<lparr>rows = [], seq = seq (patients db)\<rparr>\<rparr>)) =
         \<lparr>patients = \<lparr>rows = [], seq = seq (patients db)\<rparr>,
          doctors = \<lparr>rows = [], seq = seq (doctors db)\<rparr>,
          appointments = \<lparr>rows = [], seq = seq (appointments db)\<rparr>,
          medical_tests = \<lparr>rows = [], seq = seq (medical_tests db)\<rparr>,
          medical_histories = \<lparr>rows = [], seq = seq (medical_histories db)\<rparr>,
          faults = []\<rparr>"
    using assms by (cases db) (simp add: db_Exec_delete_from_ok DoctorModel_def)
  show ?thesis by (simp only: 1 2 3 4 5)
qed

lemma seed_same:
  assumes "faults db1 = []" "faults db2 = []"
    "seq (patients db1) = seq (patients db2)" "seq (doctors db1) = seq (doctors db2)"
    "seq (appointments db1) = seq (appointments db2)"
    "seq (medical_tests db1) = seq (medical_tests db2)"
    "seq (medical_histories db1) = seq (medical_histories db2)"
  shows "seedDatabase clk db1 = seedDatabase clk db2"
  unfolding seedDatabase_def Let_def
  by (simp only: seed_deletes [OF assms(1)] seed_deletes [OF assms(2)] assms(3-7))

lemma insert_rows_Cons:
  "insert_rows m (r # rs) db =
     (fst (insert_row m r db) # fst (insert_rows m rs (snd (insert_row m r db))),
      snd (insert_rows m rs (snd (insert_row m r db))))"
  by (simp split: prod.splits)

lemma insert_row_frame:
  assumes "\<And>t d. g (put_tbl m t d) = g d"
  shows "g (snd (insert_row m r db)) = g db"
  by (simp add: insert_row_def Let_def assms)

lemma insert_row_tbl:
  assumes "\<And>t d. tbl m (put_tbl m t d) = t"
  shows "rows (tbl m (snd (insert_row m r db))) = rows (tbl m db) @ [fst (insert_row m r db)]"
  by (simp add: insert_row_def Let_def assms)

lemma insert_row_fst:
  assumes "\<And>i r. h (set_pk m i r) = h r"
  shows "h (fst (insert_row m r db)) = h r"
  by (simp add: insert_row_def Let_def assms)

lemma insert_rows_frame:
  assumes "\<And>t d. g (put_tbl m t d) = g d"
  shows "g (snd (insert_rows m rs db)) = g db"
  by (induction rs arbitrary: db)
     (simp_all add: insert_rows_Cons insert_row_frame [of g m, OF assms]
        del: insert_rows.simps(2))

lemma insert_rows_tbl:
  assumes "\<And>t d. tbl m (put_tbl m t d) = t"
  shows "rows (tbl m (snd (insert_rows m rs db))) = rows (tbl m db) @ fst (insert_rows m rs db)"
  by (induction rs arbitrary: db)
     (simp_all add: insert_rows_Cons insert_row_tbl [of m, OF assms]
        del: insert_rows.simps(2))

lemma insert_rows_fst_map:
  assumes "\<And>i r. h (set_pk m i r) = h r"
  shows "map h (fst (insert_rows m rs db)) = map h rs"
  by (induction rs arbitrary: db)
     (simp_all add: insert_rows_Cons insert_row_fst [of h m, OF assms]
        del: insert_rows.simps(2))

lemma map_filter_None: "\<forall>r\<in>set rs. f r = None \<Longrightarrow> List.map_filter f rs = []"
  by (induction rs) (simp_all add: List.map_filter_simps)

lemma first_violation_None:
  assumes "\<forall>r\<in>set rs. check_constraint m r = None \<and> pk m r = 0"
  shows "first_violation m db rs = None"
  using assms by (simp add: first_violation_def map_filter_None)

lemma db_CreateAll_cases:
  "db_CreateAll m now rs db =
     (case fst (begin_stmt db) of
        Some e \<Rightarrow> (Inl (StorageError e), db\<lparr>faults := tl (faults db)\<rparr>)
      | None \<Rightarrow>
          (case first_violation m (db\<lparr>faults := tl (faults db)\<rparr>) (map (stamp m now) rs) of
             Some e \<Rightarrow> (Inl (StorageError e), db\<lparr>faults := tl (faults db)\<rparr>)
           | None \<Rightarrow>
               (Inr (fst (insert_rows m (map (stamp m now) rs) (db\<lparr>faults := tl (faults db)\<rparr>))),
                snd (insert_rows m (map (stamp m now) rs) (db\<lparr>faults := tl (faults db)\<rparr>)))))"
proof -
  obtain f where f: "begin_stmt db = (f, db\<lparr>faults := tl (faults db)\<rparr>)"
    using begin_stmt_pair by blast
  then show ?thesis
    by (cases f;
        cases "first_violation m (db\<lparr>faults := tl (faults db)\<rparr>) (map (stamp m now) rs)";
        cases "insert_rows m (map (stamp m now) rs) (db\<lparr>faults := tl (faults db)\<rparr>)")
       (simp_all add: db_CreateAll_def)
qed

lemma db_CreateAll_ok:
  assumes "faults db = []"
    "\<forall>r\<in>set rs. check_constraint m (stamp m now r) = None \<and> pk m (stamp m now r) = 0"
  shows "snd (db_CreateAll m now rs db) = snd (insert_rows m (map (stamp m now) rs) db)"
proof -
  have "db\<lparr>faults := tl (faults db)\<rparr> = db" using assms(1) by simp
  moreover have "fst (begin_stmt db) = None" using assms(1) by (simp add: begin_stmt_ok)
  moreover have "first_violation m db (map (stamp m now) rs) = None"
    using assms(2) by (intro first_violation_None) simp
  ultimately show ?thesis by (simp add: db_CreateAll_cases)
qed

lemma db_CreateAll_frame:
  assumes "\<And>t d. g (put_tbl m t d) = g d" "\<And>fs d. g (d\<lparr>faults := fs\<rparr>) = g d"
  shows "g (snd (db_CreateAll m now rs db)) = g db"
  by (simp add: db_CreateAll_cases insert_rows_frame [of g m, OF assms(1)] assms(2)
        split: option.splits)

lemma db_CreateAll_faults:
  assumes "\<And>t d. faults (put_tbl m t d) = faults d"
  shows "faults (snd (db_CreateAll m now rs db)) = tl (faults db)"
  by (simp add: db_CreateAll_cases insert_rows_frame [of faults m, OF assms]
        split: option.splits)

lemma seed_rows_ok:
  "\<forall>r\<in>set seed_patients.
      check_constraint PatientModel (stamp PatientModel now r) = None \<and>
      pk PatientModel (stamp PatientModel now r) = 0"
  "\<forall>r\<in>set seed_doctors.
      check_constraint DoctorModel (stamp DoctorModel now r) = None \<and>
      pk DoctorModel (stamp DoctorModel now r) = 0"
  "\<forall>r\<in>set (seed_appointments clk).
      check_constraint AppointmentModel (stamp AppointmentModel now r) = None \<and>
      pk AppointmentModel (stamp AppointmentModel now r) = 0"
  "\<forall>r\<in>set seed_medicalTests.
      check_constraint MedicalTestModel (stamp MedicalTestModel now r) = None \<and>
      pk MedicalTestModel (stamp MedicalTestModel now r) = 0"
  "\<forall>r\<in>set seed_medicalHistories.
      check_constraint MedicalHistoryModel (stamp MedicalHistoryModel now r) = None \<and>
      pk MedicalHistoryModel (stamp MedicalHistoryModel now r) = 0"
  by (simp_all add: stamp_def PatientModel_def DoctorModel_def AppointmentModel_def
        MedicalTestModel_def MedicalHistoryModel_def seed_patients_def seed_doctors_def
        seed_appointments_def seed_medicalTests_def seed_medicalHistories_def
        zero_PatientRow_def zero_DoctorRow_def zero_AppointmentRow_def zero_MedicalTestRow_def
        zero_MedicalHistoryRow_def del: utf8.simps)


lemma created_rows:
  assumes "\<And>t d. tbl m (put_tbl m t d) = t" "faults db = []"
    "\<forall>r\<in>set rs. check_constraint m (stamp m now r) = None \<and> pk m (stamp m now r) = 0"
    "rows (tbl m db) = []"
  shows "rows (tbl m (snd (db_CreateAll m now rs db))) =
           fst (insert_rows m (map (stamp m now) rs) db)"
  using assms(4) by (simp add: db_CreateAll_ok [OF assms(2,3)] insert_rows_tbl [of m, OF assms(1)])

lemma seed_tables:
  assumes "faults db = []"
  shows "\<exists>d1 d2 d3 d4 d5.
    rows (patients (seedDatabase clk db)) =
      fst (insert_rows PatientModel (map (stamp PatientModel (clk 0)) seed_patients) d1) \<and>
    rows (doctors (seedDatabase clk db)) =
      fst (insert_rows DoctorModel (map (stamp DoctorModel (clk 1)) seed_doctors) d2) \<and>
    rows (appointments (seedDatabase clk db)) =
      fst (insert_rows AppointmentModel
             (map (stamp AppointmentModel (clk 7)) (seed_appointments clk)) d3) \<and>
    rows (medical_tests (seedDatabase clk db)) =
      fst (insert_rows MedicalTestModel
             (map (stamp MedicalTestModel (clk 8)) seed_medicalTests) d4) \<and>
    rows (medical_histories (seedDatabase clk db)) =
      fst (insert_rows MedicalHistoryModel
             (map (stamp MedicalHistoryModel (clk 9)) seed_medicalHistories) d5)"
proof -
  define d1 where "d1 =
         \<lparr>patients = \<lparr>rows = [], seq = seq (patients db)\<rparr>,
          doctors = \<lparr>rows = [], seq = seq (doctors db)\<rparr>,
          appointments = \<lparr>rows = [], seq = seq (appointments db)\<rparr>,
          medical_tests = \<lparr>rows = [], seq = seq (medical_tests db)\<rparr>,
          medical_histories = \<lparr>rows = [], seq = seq (medical_histories db)\<rparr>,
          faults = []\<rparr>"
  define d2 where "d2 = snd (db_CreateAll PatientModel (clk 0) seed_patients d1)"
  define d3 where "d3 = snd (db_CreateAll DoctorModel (clk 1) seed_doctors d2)"
  define d4 where "d4 = snd (db_CreateAll AppointmentModel (clk 7) (seed_appointments clk) d3)"
  define d5 where "d5 = snd (db_CreateAll MedicalTestModel (clk 8) seed_medicalTests d4)"
  define d6 where "d6 = snd (db_CreateAll MedicalHistoryModel (clk 9) seed_medicalHistories d5)"
  have seed: "seedDatabase clk db = d6"
    unfolding seedDatabase_def Let_def d6_def d5_def d4_def d3_def d2_def d1_def
    by (simp only: seed_deletes [OF assms])
  have f1: "faults d1 = []" by (simp add: d1_def)
  have f2: "faults d2 = []"
    unfolding d2_def using f1 by (simp add: db_CreateAll_faults PatientModel_def)
  have f3: "faults d3 = []"
    unfolding d3_def using f2 by (simp add: db_CreateAll_faults DoctorModel_def)
  have f4: "faults d4 = []"
    unfolding d4_def using f3 by (simp add: db_CreateAll_faults AppointmentModel_def)
  have f5: "faults d5 = []"
    unfolding d5_def using f4 by (simp add: db_CreateAll_faults MedicalTestModel_def)
  have e1: "rows (patients d1) = []" "rows (doctors d1) = []" "rows (appointments d1) = []"
    "rows (medical_tests d1) = []" "rows (medical_histories d1) = []"
    by (simp_all add: d1_def)
  have e2: "rows (doctors d2) = []" "rows (appointments d2) = []"
    "rows (medical_tests d2) = []" "rows (medical_histories d2) = []"
    unfolding d2_def using e1
    by (simp_all add: db_CreateAll_frame PatientModel_def)
  have e3: "rows (appointments d3) = []" "rows (medical_tests d3) = []"
    "rows (medical_histories d3) = []"
    unfolding d3_def using e2
    by (simp_all add: db_CreateAll_frame DoctorModel_def)
  have e4: "rows (medical_tests d4) = []" "rows (medical_histories d4) = []"
    unfolding d4_def using e3
    by (simp_all add: db_CreateAll_frame AppointmentModel_def)
  have e5: "rows (medical_histories d5) = []"
    unfolding d5_def using e4
    by (simp_all add: db_CreateAll_frame MedicalTestModel_def)
  have p: "rows (patients d2) =
      fst (insert_rows PatientModel (map (stamp PatientModel (clk 0)) seed_patients) d1)"
    using created_rows [of PatientModel d1 seed_patients "clk 0", OF _ f1 seed_rows_ok(1)] e1(1)
    by (simp add: d2_def PatientModel_def)
  have d: "rows (doctors d3) =
      fst (insert_rows DoctorModel (map (stamp DoctorModel (clk 1)) seed_doctors) d2)"
    using created_rows [of DoctorModel d2 seed_doctors "clk 1", OF _ f2 seed_rows_ok(2)] e2(1)
    by (simp add: d3_def DoctorModel_def)
  have a: "rows (appointments d4) =
      fst (insert_rows AppointmentModel
             (map (stamp AppointmentModel (clk 7)) (seed_appointments clk)) d3)"
    using created_rows [of AppointmentModel d3 "seed_appointments clk" "clk 7",
        OF _ f3 seed_rows_ok(3)] e3(1)
    by (simp add: d4_def AppointmentModel_def)
  have t: "rows (medical_tests d5) =
      fst (insert_rows MedicalTestModel
             (map (stamp MedicalTestModel (clk 8)) seed_medicalTests) d4)"
    using created_rows [of MedicalTestModel d4 seed_medicalTests "clk 8",
        OF _ f4 seed_rows_ok(4)] e4(1)
    by (simp add: d5_def MedicalTestModel_def)
  have h: "rows (medical_histories d6) =
      fst (insert_rows MedicalHistoryModel
             (map (stamp MedicalHistoryModel (clk 9)) seed_medicalHistories) d5)"
    using created_rows [of MedicalHistoryModel d5 seed_medicalHistories "clk 9",
        OF _ f5 seed_rows_ok(5)] e5(1)
    by (simp add: d6_def MedicalHistoryModel_def)
  have p6: "patients d6 = patients d2"
    unfolding d6_def d5_def d4_def d3_def
    by (simp add: db_CreateAll_frame DoctorModel_def AppointmentModel_def MedicalTestModel_def
          MedicalHistoryModel_def)
  have d6: "doctors d6 = doctors d3"
    unfolding d6_def d5_def d4_def
    by (simp add: db_CreateAll_frame AppointmentModel_def MedicalTestModel_def
          MedicalHistoryModel_def)
  have a6: "appointments d6 = appointments d4"
    unfolding d6_def d5_def
    by (simp add: db_CreateAll_frame MedicalTestModel_def MedicalHistoryModel_def)
  have t6: "medical_tests d6 = medical_tests d5"
    unfolding d6_def
    by (simp add: db_CreateAll_frame MedicalHistoryModel_def)
  show ?thesis
    unfolding seed using p d a t h p6 d6 a6 t6 by auto
qed

lemma seed_values:
  "map (\<lambda>r. r\<lparr>p_ID := 0, p_CreatedAt := 0\<rparr>) (map (stamp PatientModel now) seed_patients) =
     seed_patients"
  "map (\<lambda>r. r\<lparr>d_ID := 0, d_CreatedAt := 0\<rparr>) (map (stamp DoctorModel now) seed_doctors) =
     seed_doctors"
  "map (\<lambda>r. r\<lparr>a_ID := 0, a_CreatedAt := 0\<rparr>)
     (map (stamp AppointmentModel now) (seed_appointments clk)) = seed_appointments clk"
  "map (\<lambda>r. r\<lparr>t_ID := 0, t_CreatedAt := 0\<rparr>)
     (map (stamp MedicalTestModel now) seed_medicalTests) = seed_medicalTests"
  "map (\<lambda>r. r\<lparr>h_ID := 0, h_CreatedAt := 0\<rparr>)
     (map (stamp MedicalHistoryModel now) seed_medicalHistories) = seed_medicalHistories"
  by (simp_all add: stamp_def PatientModel_def DoctorModel_def AppointmentModel_def
        MedicalTestModel_def MedicalHistoryModel_def seed_patients_def seed_doctors_def
        seed_appointments_def seed_medicalTests_def seed_medicalHistories_def
        zero_PatientRow_def zero_DoctorRow_def zero_AppointmentRow_def zero_MedicalTestRow_def
        zero_MedicalHistoryRow_def del: utf8.simps)

lemma seed_stamps:
  "map p_CreatedAt (map (stamp PatientModel now) seed_patients) = replicate 5 now"
  "map d_CreatedAt (map (stamp DoctorModel now) seed_doctors) = replicate 4 now"
  "map a_CreatedAt (map (stamp AppointmentModel now) (seed_appointments clk)) = replicate 5 now"
  "map t_CreatedAt (map (stamp MedicalTestModel now) seed_medicalTests) = replicate 6 now"
  "map h_CreatedAt (map (stamp MedicalHistoryModel now) seed_medicalHistories) =
     replicate 11 now"
  "map a_Date (map (stamp AppointmentModel now) (seed_appointments clk)) =
     [Add (clk 2) (- 24 * Hour), Add (clk 3) (- 12 * Hour), Add (clk 4) (- 6 * Hour),
      Add (clk 5) (- 3 * Hour), clk 6]"
  by (simp_all add: stamp_def PatientModel_def DoctorModel_def AppointmentModel_def
        MedicalTestModel_def MedicalHistoryModel_def seed_patients_def seed_doctors_def
        seed_appointments_def seed_medicalTests_def seed_medicalHistories_def
        zero_PatientRow_def zero_DoctorRow_def zero_AppointmentRow_def zero_MedicalTestRow_def
        zero_MedicalHistoryRow_def numeral_eq_Suc del: utf8.simps)

lemma seed_contents:
  assumes "faults db = []"
  shows
    "map (\<lambda>r. r\<lparr>p_ID := 0, p_CreatedAt := 0\<rparr>) (rows (patients (seedDatabase clk db))) =
       seed_patients"
    "map (\<lambda>r. r\<lparr>d_ID := 0, d_CreatedAt := 0\<rparr>) (rows (doctors (seedDatabase clk db))) =
       seed_doctors"
    "map (\<lambda>r. r\<lparr>a_ID := 0, a_CreatedAt := 0\<rparr>) (rows (appointments (seedDatabase clk db))) =
       seed_appointments clk"
    "map (\<lambda>r. r\<lparr>t_ID := 0, t_CreatedAt := 0\<rparr>) (rows (medical_tests (seedDatabase clk db))) =
       seed_medicalTests"
    "map (\<lambda>r. r\<lparr>h_ID := 0, h_CreatedAt := 0\<rparr>)
       (rows (medical_histories (seedDatabase clk db))) = seed_medicalHistories"
    "map p_CreatedAt (rows (patients (seedDatabase clk db))) = replicate 5 (clk 0)"
    "map d_CreatedAt (rows (doctors (seedDatabase clk db))) = replicate 4 (clk 1)"
    "map a_CreatedAt (rows (appointments (seedDatabase clk db))) = replicate 5 (clk 7)"
    "map t_CreatedAt (rows (medical_tests (seedDatabase clk db))) = replicate 6 (clk 8)"
    "map h_CreatedAt (rows (medical_histories (seedDatabase clk db))) = replicate 11 (clk 9)"
    "map a_Date (rows (appointments (seedDatabase clk db))) =
       [Add (clk 2) (- 24 * Hour), Add (clk 3) (- 12 * Hour), Add (clk 4) (- 6 * Hour),
        Add (clk 5) (- 3 * Hour), clk 6]"
proof -
  from seed_tables [OF assms, of clk] obtain d1 d2 d3 d4 d5 where
    p: "rows (patients (seedDatabase clk db)) =
      fst (insert_rows PatientModel (map (stamp PatientModel (clk 0)) seed_patients) d1)" and
    d: "rows (doctors (seedDatabase clk db)) =
      fst (insert_rows DoctorModel (map (stamp DoctorModel (clk 1)) seed_doctors) d2)" and
    a: "rows (appointments (seedDatabase clk db)) =
      fst (insert_rows AppointmentModel
             (map (stamp AppointmentModel (clk 7)) (seed_appointments clk)) d3)" and
    t: "rows (medical_tests (seedDatabase clk db)) =
      fst (insert_rows MedicalTestModel
             (map (stamp MedicalTestModel (clk 8)) seed_medicalTests) d4)" and
    h: "rows (medical_histories (seedDatabase clk db)) =
      fst (insert_rows MedicalHistoryModel
             (map (stamp MedicalHistoryModel (clk 9)) seed_medicalHistories) d5)"
    by blast
  show "map (\<lambda>r. r\<lparr>p_ID := 0, p_CreatedAt := 0\<rparr>) (rows (patients (seedDatabase clk db))) =
       seed_patients"
    unfolding p
    by (rule trans [OF insert_rows_fst_map seed_values(1)]) (simp add: PatientModel_def)
  show "map (\<lambda>r. r\<lparr>d_ID := 0, d_CreatedAt := 0\<rparr>) (rows (doctors (seedDatabase clk db))) =
       seed_doctors"
    unfolding d
    by (rule trans [OF insert_rows_fst_map seed_values(2)]) (simp add: DoctorModel_def)
  show "map (\<lambda>r. r\<lparr>a_ID := 0, a_CreatedAt := 0\<rparr>) (rows (appointments (seedDatabase clk db))) =
       seed_appointments clk"
    unfolding a
    by (rule trans [OF insert_rows_fst_map seed_values(3)]) (simp add: AppointmentModel_def)
  show "map (\<lambda>r. r\<lparr>t_ID := 0, t_CreatedAt := 0\<rparr>) (rows (medical_tests (seedDatabase clk db))) =
       seed_medicalTests"
    unfolding t
    by (rule trans [OF insert_rows_fst_map seed_values(4)]) (simp add: MedicalTestModel_def)
  show "map (\<lambda>r. r\<lparr>h_ID := 0, h_CreatedAt := 0\<rparr>)
       (rows (medical_histories (seedDatabase clk db))) = seed_medicalHistories"
    unfolding h
    by (rule trans [OF insert_rows_fst_map seed_values(5)]) (simp add: MedicalHistoryModel_def)
  show "map p_CreatedAt (rows (patients (seedDatabase clk db))) = replicate 5 (clk 0)"
    unfolding p
    by (rule trans [OF insert_rows_fst_map seed_stamps(1)]) (simp add: PatientModel_def)
  show "map d_CreatedAt (rows (doctors (seedDatabase clk db))) = replicate 4 (clk 1)"
    unfolding d
    by (rule trans [OF insert_rows_fst_map seed_stamps(2)]) (simp add: DoctorModel_def)
  show "map a_CreatedAt (rows (appointments (seedDatabase clk db))) = replicate 5 (clk 7)"
    unfolding a
    by (rule trans [OF insert_rows_fst_map seed_stamps(3)]) (simp add: AppointmentModel_def)
  show "map t_CreatedAt (rows (medical_tests (seedDatabase clk db))) = replicate 6 (clk 8)"
    unfolding t
    by (rule trans [OF insert_rows_fst_map seed_stamps(4)]) (simp add: MedicalTestModel_def)
  show "map h_CreatedAt (rows (medical_histories (seedDatabase clk db))) = replicate 11 (clk 9)"
    unfolding h
    by (rule trans [OF insert_rows_fst_map seed_stamps(5)]) (simp add: MedicalHistoryModel_def)
  show "map a_Date (rows (appointments (seedDatabase clk db))) =
       [Add (clk 2) (- 24 * Hour), Add (clk 3) (- 12 * Hour), Add (clk 4) (- 6 * Hour),
        Add (clk 5) (- 3 * Hour), clk 6]"
    unfolding a
    by (rule trans [OF insert_rows_fst_map seed_stamps(6)]) (simp add: AppointmentModel_def)
qed

text \<open>
  \<^bold>\<open>C7\<close>, as the seed has it.  On a working storage the database after the seed depends
  only on the readings of the clock and on the identifier sequences of the five tables,
  not on the rows that were there: two starts that agree on these leave equal databases.
  The rows are the fixed records of the source in every column but the identifier and
  the creation time; the creation times and the dates of the appointments are readings
  of the clock.
\<close>

theorem seed_determined_by_clock_and_sequences:
  "(faults db1 = [] \<and> faults db2 = [] \<and>
    seq (patients db1) = seq (patients db2) \<and> seq (doctors db1) = seq (doctors db2) \<and>
    seq (appointments db1) = seq (appointments db2) \<and>
    seq (medical_tests db1) = seq (medical_tests db2) \<and>
    seq (medical_histories db1) = seq (medical_histories db2) \<longrightarrow>
      seedDatabase clk db1 = seedDatabase clk db2) \<and>
   (faults db = [] \<longrightarrow>
      map (\<lambda>r. r\<lparr>p_ID := 0, p_CreatedAt := 0\<rparr>) (rows (patients (seedDatabase clk db))) =
        seed_patients \<and>
      map (\<lambda>r. r\<lparr>d_ID := 0, d_CreatedAt := 0\<rparr>) (rows (doctors (seedDatabase clk db))) =
        seed_doctors \<and>
      map (\<lambda>r. r\<lparr>a_ID := 0, a_CreatedAt := 0\<rparr>) (rows (appointments (seedDatabase clk db))) =
        seed_appointments clk \<and>
      map (\<lambda>r. r\<lparr>t_ID := 0, t_CreatedAt := 0\<rparr>) (rows (medical_tests (seedDatabase clk db))) =
        seed_medicalTests \<and>
      map (\<lambda>r. r\<lparr>h_ID := 0, h_CreatedAt := 0\<rparr>)
        (rows (medical_histories (seedDatabase clk db))) = seed_medicalHistories \<and>
      map p_CreatedAt (rows (patients (seedDatabase clk db))) = replicate 5 (clk 0) \<and>
      map d_CreatedAt (rows (doctors (seedDatabase clk db))) = replicate 4 (clk 1) \<and>
      map a_CreatedAt (rows (appointments (seedDatabase clk db))) = replicate 5 (clk 7) \<and>
      map t_CreatedAt (rows (medical_tests (seedDatabase clk db))) = replicate 6 (clk 8) \<and>
      map h_CreatedAt (rows (medical_histories (seedDatabase clk db))) =
        replicate 11 (clk 9) \<and>
      map a_Date (rows (appointments (seedDatabase clk db))) =
        [Add (clk 2) (- 24 * Hour), Add (clk 3) (- 12 * Hour), Add (clk 4) (- 6 * Hour),
         Add (clk 5) (- 3 * Hour), clk 6])"
  using seed_same [of db1 db2 clk] seed_contents [of db clk]
  by blast

theorem seed_determined_by_clock_and_sequences_witness:
  "faults sample_DB = [] \<and>
   seedDatabase (clock_at start_A) sample_DB =
     seedDatabase (clock_at start_A) (sample_DB\<lparr>patients := \<lparr>rows = [], seq = 1\<rparr>\<rparr>) \<and>
   map a_CreatedAt (rows (appointments (seedDatabase (clock_at start_A) sample_DB))) =
     replicate 5 start_A"
proof -
  have f: "faults sample_DB = []" "seq (patients sample_DB) = 1"
    by (simp_all add: sample_DB_def)
  have c: "clock_at start_A 7 = start_A"
    by (simp add: clock_at_def)
  show ?thesis
    using f c seed_determined_by_clock_and_sequences
      [of sample_DB "sample_DB\<lparr>patients := \<lparr>rows = [], seq = 1\<rparr>\<rparr>" "clock_at start_A"
        sample_DB]
    by auto
qed

text \<open>
  Two starts on a fresh file, a day apart: the appointments of the two databases have
  different dates.
\<close>

theorem seed_clock_counterexample:
  "map a_Date (rows (appointments (seedDatabase (clock_at start_A) empty_DB))) \<noteq>
     map a_Date (rows (appointments (seedDatabase (clock_at start_B) empty_DB))) \<and>
   seedDatabase (clock_at start_A) empty_DB \<noteq> seedDatabase (clock_at start_B) empty_DB"
proof -
  have f: "faults empty_DB = []" by (simp add: empty_DB_def)
  have ne: "start_A \<noteq> start_B"
    by (simp add: start_A_def start_B_def Date_def days_before_year_def days_before_month_def
          leap_def Hour_def)
  have "map a_Date (rows (appointments (seedDatabase (clock_at start_A) empty_DB))) \<noteq>
     map a_Date (rows (appointments (seedDatabase (clock_at start_B) empty_DB)))"
    using ne by (simp add: seed_contents(11) [OF f] clock_at_def)
  then show ?thesis by auto
qed

section \<open>Identifier sequences\<close>

text \<open>
  No call of the API lowers the identifier sequence of a table: an identifier that a
  creation has returned stays at or below the sequence for good.
\<close>

lemma seq_le_refl [simp]: "seq_le db db"
  by (simp add: seq_le_def)


lemma seq_le_faults [simp]: "seq_le db (db'\<lparr>faults := fs\<rparr>) = seq_le db db'"
  by (simp add: seq_le_def)



















section \<open>Creating and then getting\<close>













end
